theory Spec2Isabelle
  imports Complex_Main "HOL-Library.Word" "HOL-Library.AList" "HOL-Library.Multiset"
    "HOL-Library.List_Lexorder" "HOL-Library.Char_ord"
begin

section \<open>Cluster surveys of the live service (pkg/services/live/survey/survey.go)\<close>

text \<open>
  The file under verification lets a node of the cluster answer surveys of its peers
  (\<^verbatim>\<open>handleSurvey\<close> and its two handlers) and issue surveys itself
  (\<^verbatim>\<open>CallPluginSubscribeStream\<close>, \<^verbatim>\<open>CallManagedStreams\<close>).
  Every collaborator of the \<^verbatim>\<open>Caller\<close> struct is an interface or a pointer into
  another package; here each one is a function on an abstract world \<open>'w\<close> that returns
  its Go result together with the world it leaves behind. Every invocation of a
  collaborator is also written to a log, so that "is never invoked" is a statement about
  the log.
\<close>

subsection \<open>Data\<close>

type_synonym int64 = "64 word"
type_synonym uint32 = "32 word"
type_synonym bytes = "8 word list"

text \<open>
  Go's \<^verbatim>\<open>error\<close> values that this file produces or passes on.
  \<open>New msg\<close> is \<^verbatim>\<open>errors.New(msg)\<close>; the two \<open>Errorf\<close> constructors are the two
  \<^verbatim>\<open>fmt.Errorf\<close> calls; \<open>Foreign e\<close> is an error value of a collaborator or of
  \<^verbatim>\<open>encoding/json\<close> that is returned as it is. \<open>Panic_nil_pointer\<close> is not an
  error value: it stands for the run-time panic of dereferencing a nil
  \<^verbatim>\<open>*ManagedChannel\<close>, after which the function returns nothing.
\<close>

datatype 'e error =
    New string
  | Errorf_survey_error 'e
  | Errorf_unexpected_survey_code uint32
  | Foreign 'e
  | Panic_nil_pointer

text \<open>
  Modelled from the spec: \<^verbatim>\<open>managedstream.ManagedChannel\<close> is declared in another
  package. The spec names a channel name and a per-minute message rate; the code reads
  \<^verbatim>\<open>Channel\<close> (a string) and adds \<^verbatim>\<open>MinuteRate\<close> with \<^verbatim>\<open>+=\<close>. The type of the
  rate is the parameter \<open>'r\<close>, and whatever further fields the struct has travel in the
  extension slot of the record.
\<close>

record 'r ManagedChannel =
  Channel :: string
  MinuteRate :: 'r

text \<open>
  Modelled from the spec: \<^verbatim>\<open>models.SignedInUser\<close> is declared in another package. The
  code reads and writes \<^verbatim>\<open>UserId\<close> and \<^verbatim>\<open>OrgId\<close>; all other fields travel in the
  extension slot, whose Go zero value is \<open>0\<close>.
\<close>

record SignedInUser =
  UserId :: int64
  OrgId :: int64

text \<open>\<^verbatim>\<open>models.GetSignedInUserQuery{UserId: ..., OrgId: ...}\<close> as the handler builds it.\<close>

record GetSignedInUserQuery =
  q_UserId :: int64
  q_OrgId :: int64

text \<open>
  Modelled from the spec: \<^verbatim>\<open>models.SubscribeEvent\<close>, with the three fields the handler
  sets, and \<^verbatim>\<open>live.Channel\<close>, with the one field the handler reads.
\<close>

record SubscribeEvent =
  ev_Channel :: string
  ev_Path :: string
  ev_LeadershipID :: string

record live_Channel =
  Path :: string

text \<open>
  Modelled from the spec: \<^verbatim>\<open>centrifuge.SurveyEvent\<close>, \<^verbatim>\<open>centrifuge.SurveyReply\<close> and
  \<^verbatim>\<open>centrifuge.SurveyResult\<close> belong to the transport library. A reply and a result
  both carry a status code and payload bytes; a nil payload is the empty list.
\<close>

record SurveyEvent =
  Op :: string
  ev_Data :: bytes

record SurveyReply =
  Code :: uint32
  Data :: bytes

type_synonym SurveyResult = SurveyReply

record NodeManagedChannelsRequest =
  req_OrgID :: int64

text \<open>An element of \<^verbatim>\<open>[]*managedstream.ManagedChannel\<close> is a pointer: \<open>None\<close> is nil.\<close>

record ('r, 'z) NodeManagedChannelsResponse =
  Channels :: "('r, 'z) ManagedChannel_scheme option list"

record PluginSubscribeStreamRequest =
  OrgID :: int64
  UserID :: int64
  sub_Channel :: string
  LeaderNodeID :: string
  LeadershipID :: string

text \<open>
  \<open>'s\<close> is \<^verbatim>\<open>backend.SubscribeStreamStatus\<close> and \<open>'p\<close> is \<^verbatim>\<open>models.SubscribeReply\<close>;
  the Go zero value of either is \<open>0\<close>.
\<close>

record ('s, 'p) PluginSubscribeStreamResponse =
  Status :: 's
  Reply :: 'p

text \<open>The \<^verbatim>\<open>interface{}\<close> that \<^verbatim>\<open>handleSurvey\<close> marshals: one of the two responses.\<close>

datatype ('r, 'z, 's, 'p) response =
    ManagedChannels "('r, 'z) NodeManagedChannelsResponse"
  | PluginSubscribe "('s, 'p) PluginSubscribeStreamResponse"

definition managedStreamsCall :: string where
  "managedStreamsCall = ''managed_streams''"

definition pluginSubscribeStream :: string where
  "pluginSubscribeStream = ''plugin_subscribe_stream''"

subsection \<open>Collaborators, the world and the log of calls\<close>

datatype 'x call =
    is_GetLeader: Called_GetLeader string
  | is_Dispatch: Called_Dispatch GetSignedInUserQuery
  | is_GetChannelHandler: Called_GetChannelHandler "'x SignedInUser_scheme option" string
  | is_OnSubscribe: Called_OnSubscribe "'x SignedInUser_scheme option" SubscribeEvent
  | is_GetManagedChannels: Called_GetManagedChannels int64
  | is_Survey: Called_Survey string bytes string

record ('w, 'x) state =
  world :: 'w
  calls :: "'x call list"

text \<open>
  \<^verbatim>\<open>models.ChannelHandler\<close>, by its method \<^verbatim>\<open>OnSubscribe(ctx, user, event)\<close>, which
  returns a reply, a status and an error. The user is a pointer and may be nil.
\<close>

type_synonym ('w, 'e, 'x, 's, 'p) ChannelHandler =
  "'x SignedInUser_scheme option \<Rightarrow> SubscribeEvent \<Rightarrow> 'w \<Rightarrow> ('e + 'p \<times> 's) \<times> 'w"

text \<open>
  The struct \<^verbatim>\<open>Caller\<close>. Each field is the one method that this file calls on it:
  \<^verbatim>\<open>channelHandlerGetter.GetChannelHandler\<close>, \<^verbatim>\<open>managedStreamRunner.GetManagedChannels\<close>,
  \<^verbatim>\<open>bus.Dispatch\<close> (which fills \<^verbatim>\<open>query.Result\<close>, returned here),
  \<^verbatim>\<open>node.ID\<close>, \<^verbatim>\<open>node.Survey\<close> and \<^verbatim>\<open>leaderManager.GetLeader\<close> (found, leader node,
  leadership token, or an error). A context and its timeout are not arguments: a call
  that times out returns its error. \<^verbatim>\<open>node.Survey\<close> returns a Go map from node ID to
  result; it is the list of its entries in the order in which \<^verbatim>\<open>range\<close> visits them,
  an order that Go leaves unspecified.
\<close>

record ('w, 'e, 'x, 's, 'p, 'r, 'z) Caller =
  GetChannelHandler ::
    "'x SignedInUser_scheme option \<Rightarrow> string \<Rightarrow> 'w \<Rightarrow>
       ('e + ('w, 'e, 'x, 's, 'p) ChannelHandler \<times> live_Channel) \<times> 'w"
  GetManagedChannels ::
    "int64 \<Rightarrow> 'w \<Rightarrow> ('e + ('r, 'z) ManagedChannel_scheme option list) \<times> 'w"
  Dispatch :: "GetSignedInUserQuery \<Rightarrow> 'w \<Rightarrow> ('e + 'x SignedInUser_scheme option) \<times> 'w"
  node_ID :: string
  Survey :: "string \<Rightarrow> bytes \<Rightarrow> string \<Rightarrow> 'w \<Rightarrow> ('e + (string \<times> SurveyResult) list) \<times> 'w"
  GetLeader :: "string \<Rightarrow> 'w \<Rightarrow> ('e + bool \<times> string \<times> string) \<times> 'w"

text \<open>
  What the file takes from imported packages: \<^verbatim>\<open>json.Unmarshal\<close> and
  \<^verbatim>\<open>json.Marshal\<close> at each type they are used at, and \<^verbatim>\<open>orgchannel.PrependOrgID\<close>.
\<close>

record ('e, 's, 'p, 'r, 'z) imported =
  Unmarshal_NodeManagedChannelsRequest :: "bytes \<Rightarrow> 'e + NodeManagedChannelsRequest"
  Unmarshal_NodeManagedChannelsResponse :: "bytes \<Rightarrow> 'e + ('r, 'z) NodeManagedChannelsResponse"
  Unmarshal_PluginSubscribeStreamRequest :: "bytes \<Rightarrow> 'e + PluginSubscribeStreamRequest"
  Unmarshal_PluginSubscribeStreamResponse :: "bytes \<Rightarrow> 'e + ('s, 'p) PluginSubscribeStreamResponse"
  Marshal_NodeManagedChannelsRequest :: "NodeManagedChannelsRequest \<Rightarrow> 'e + bytes"
  Marshal_PluginSubscribeStreamRequest :: "PluginSubscribeStreamRequest \<Rightarrow> 'e + bytes"
  Marshal_response :: "('r, 'z, 's, 'p) response \<Rightarrow> 'e + bytes"
  PrependOrgID :: "int64 \<Rightarrow> string \<Rightarrow> string"

definition logged :: "'x call \<Rightarrow> ('w \<Rightarrow> 'a \<times> 'w) \<Rightarrow> ('w, 'x) state \<Rightarrow> 'a \<times> ('w, 'x) state" where
  "logged ev f s =
     (case f (world s) of (r, w') \<Rightarrow> (r, \<lparr>world = w', calls = calls s @ [ev]\<rparr>))"

subsection \<open>The receiving side\<close>

definition handleManagedStreams ::
  "('w, 'e, 'x, 's, 'p, 'r, 'z) Caller \<Rightarrow> ('e, 's, 'p, 'r, 'z) imported \<Rightarrow> bytes \<Rightarrow>
     ('w, 'x) state \<Rightarrow> ('e error + ('r, 'z) NodeManagedChannelsResponse) \<times> ('w, 'x) state" where
  "handleManagedStreams c im data s =
     (case Unmarshal_NodeManagedChannelsRequest im data of
        Inl err \<Rightarrow> (Inl (Foreign err), s)
      | Inr req \<Rightarrow>
          (case logged (Called_GetManagedChannels (req_OrgID req))
                  (GetManagedChannels c (req_OrgID req)) s of
             (Inl err, s1) \<Rightarrow> (Inl (Foreign err), s1)
           | (Inr channels, s1) \<Rightarrow> (Inr \<lparr>Channels = channels\<rparr>, s1)))"

definition handlePluginSubscribeStream ::
  "('w, 'e, 'x::zero, 's::zero, 'p::zero, 'r, 'z) Caller \<Rightarrow> ('e, 's, 'p, 'r, 'z) imported \<Rightarrow>
     bytes \<Rightarrow> ('w, 'x) state \<Rightarrow>
     ('e error + ('s, 'p) PluginSubscribeStreamResponse) \<times> ('w, 'x) state" where
  "handlePluginSubscribeStream c im data s =
     (case Unmarshal_PluginSubscribeStreamRequest im data of
        Inl err \<Rightarrow> (Inl (Foreign err), s)
      | Inr req \<Rightarrow>
          if LeaderNodeID req \<noteq> node_ID c then (Inr \<lparr>Status = 0, Reply = 0\<rparr>, s)
          else
            (let key = PrependOrgID im (OrgID req) (sub_Channel req) in
             case logged (Called_GetLeader key) (GetLeader c key) s of
               (Inl err, s1) \<Rightarrow> (Inl (New ''error checking leader''), s1)
             | (Inr (ok, leaderNode, currentLeadershipID), s1) \<Rightarrow>
                 if \<not> ok \<or> currentLeadershipID \<noteq> LeadershipID req
                 then (Inl (New ''leader changed''), s1)
                 else
                   (let (found, s2) =
                      (if 0 < sint (UserID req)
                       then
                         (let query = \<lparr>q_UserId = UserID req, q_OrgId = OrgID req\<rparr> in
                          logged (Called_Dispatch query) (Dispatch c query) s1)
                       else (Inr (Some \<lparr>UserId = 0, OrgId = OrgID req, \<dots> = 0\<rparr>), s1))
                    in case found of
                      Inl err \<Rightarrow> (Inl (New ''error getting signed in user''), s2)
                    | Inr user \<Rightarrow>
                        (case logged (Called_GetChannelHandler user (sub_Channel req))
                                (GetChannelHandler c user (sub_Channel req)) s2 of
                           (Inl err, s3) \<Rightarrow> (Inl (Foreign err), s3)
                         | (Inr (handler, parsedChannel), s3) \<Rightarrow>
                             (let event = \<lparr>ev_Channel = sub_Channel req,
                                           ev_Path = Path parsedChannel,
                                           ev_LeadershipID = LeadershipID req\<rparr> in
                              case logged (Called_OnSubscribe user event) (handler user event) s3 of
                                (Inl err, s4) \<Rightarrow> (Inl (Foreign err), s4)
                              | (Inr (reply, status), s4) \<Rightarrow>
                                  (Inr \<lparr>Status = status, Reply = reply\<rparr>, s4))))))"

text \<open>
  \<^verbatim>\<open>handleSurvey\<close> calls the callback \<^verbatim>\<open>cb\<close> once on every path; the reply it passes
  is the value returned here.
\<close>

definition handleSurvey ::
  "('w, 'e, 'x::zero, 's::zero, 'p::zero, 'r, 'z) Caller \<Rightarrow> ('e, 's, 'p, 'r, 'z) imported \<Rightarrow>
     SurveyEvent \<Rightarrow> ('w, 'x) state \<Rightarrow> SurveyReply \<times> ('w, 'x) state" where
  "handleSurvey c im e s =
     (let (result, s1) =
        (if Op e = managedStreamsCall
         then (case handleManagedStreams c im (ev_Data e) s of
                 (r, s') \<Rightarrow> (map_sum id ManagedChannels r, s'))
         else if Op e = pluginSubscribeStream
         then (case handlePluginSubscribeStream c im (ev_Data e) s of
                 (r, s') \<Rightarrow> (map_sum id PluginSubscribe r, s'))
         else (Inl (New ''method not found''), s))
      in case result of
        Inl err \<Rightarrow> (\<lparr>Code = 1, Data = []\<rparr>, s1)
      | Inr resp \<Rightarrow>
          (case Marshal_response im resp of
             Inl err \<Rightarrow> (\<lparr>Code = 1, Data = []\<rparr>, s1)
           | Inr jsonData \<Rightarrow> (\<lparr>Code = 0, Data = jsonData\<rparr>, s1)))"

subsection \<open>The calling side\<close>

text \<open>
  The loop of \<^verbatim>\<open>CallPluginSubscribeStream\<close> over the replies (lines 204 to 218), in the
  order in which \<^verbatim>\<open>range\<close> visits the map.
\<close>

fun CallPluginSubscribeStream_loop ::
  "('e, 's, 'p, 'r, 'z) imported \<Rightarrow> string \<Rightarrow> (string \<times> SurveyResult) list \<Rightarrow>
     'e error + 'p \<times> 's" where
  "CallPluginSubscribeStream_loop im leaderNodeID [] = Inl (New ''leader node not responded'')"
| "CallPluginSubscribeStream_loop im leaderNodeID ((nodeID, result) # rest) =
     (if Code result \<noteq> 0 then Inl (Errorf_unexpected_survey_code (Code result))
      else if nodeID \<noteq> leaderNodeID then CallPluginSubscribeStream_loop im leaderNodeID rest
      else (case Unmarshal_PluginSubscribeStreamResponse im (Data result) of
              Inl err \<Rightarrow> Inl (Foreign err)
            | Inr res \<Rightarrow> Inr (Reply res, Status res)))"

text \<open>The caller passes a non-nil \<^verbatim>\<open>user\<close>, whose two fields are read first.\<close>

definition CallPluginSubscribeStream ::
  "('w, 'e, 'x, 's, 'p, 'r, 'z) Caller \<Rightarrow> ('e, 's, 'p, 'r, 'z) imported \<Rightarrow>
     'x SignedInUser_scheme \<Rightarrow> string \<Rightarrow> string \<Rightarrow> string \<Rightarrow> ('w, 'x) state \<Rightarrow>
     ('e error + 'p \<times> 's) \<times> ('w, 'x) state" where
  "CallPluginSubscribeStream c im user channel leaderNodeID leadershipID s =
     (let req = \<lparr>OrgID = OrgId user, UserID = UserId user, sub_Channel = channel,
                 LeaderNodeID = leaderNodeID, LeadershipID = leadershipID\<rparr> in
      case Marshal_PluginSubscribeStreamRequest im req of
        Inl err \<Rightarrow> (Inl (Foreign err), s)
      | Inr jsonData \<Rightarrow>
          (case logged (Called_Survey pluginSubscribeStream jsonData leaderNodeID)
                  (Survey c pluginSubscribeStream jsonData leaderNodeID) s of
             (Inl err, s1) \<Rightarrow> (Inl (Errorf_survey_error err), s1)
           | (Inr resp, s1) \<Rightarrow> (CallPluginSubscribeStream_loop im leaderNodeID resp, s1)))"

text \<open>\<^verbatim>\<open>strings.HasPrefix(s, prefix)\<close>.\<close>

definition HasPrefix :: "string \<Rightarrow> string \<Rightarrow> bool" where
  "HasPrefix s pre = (length pre \<le> length s \<and> take (length pre) s = pre)"

text \<open>
  The map \<^verbatim>\<open>channels\<close> of \<^verbatim>\<open>CallManagedStreams\<close> is an association list, a new key
  going to the end. Its values are pointers to the structs that \<^verbatim>\<open>json.Unmarshal\<close>
  has just allocated, one per list element, so no two entries share a struct and
  \<^verbatim>\<open>+=\<close> on one entry changes that entry only.

  \<open>CallManagedStreams_merge\<close> is the inner loop (lines 246 to 257): a nil element
  panics at \<^verbatim>\<open>ch.Channel\<close>.
\<close>

fun CallManagedStreams_merge ::
  "(string \<times> ('r::plus, 'z) ManagedChannel_scheme) list \<Rightarrow>
     ('r, 'z) ManagedChannel_scheme option list \<Rightarrow>
     'e error + (string \<times> ('r, 'z) ManagedChannel_scheme) list" where
  "CallManagedStreams_merge channels [] = Inr channels"
| "CallManagedStreams_merge channels (None # rest) = Inl Panic_nil_pointer"
| "CallManagedStreams_merge channels (Some ch # rest) =
     (case map_of channels (Channel ch) of
        Some old \<Rightarrow>
          if HasPrefix (Channel ch) ''plugin/testdata/''
          then CallManagedStreams_merge channels rest
          else CallManagedStreams_merge
                 (AList.update (Channel ch)
                    (old\<lparr>MinuteRate := MinuteRate old + MinuteRate ch\<rparr>) channels) rest
      | None \<Rightarrow> CallManagedStreams_merge (channels @ [(Channel ch, ch)]) rest)"

text \<open>The outer loop over the replies (lines 237 to 258).\<close>

fun CallManagedStreams_loop ::
  "('e, 's, 'p, 'r::plus, 'z) imported \<Rightarrow> (string \<times> ('r, 'z) ManagedChannel_scheme) list \<Rightarrow>
     (string \<times> SurveyResult) list \<Rightarrow>
     'e error + (string \<times> ('r, 'z) ManagedChannel_scheme) list" where
  "CallManagedStreams_loop im channels [] = Inr channels"
| "CallManagedStreams_loop im channels ((nodeID, result) # rest) =
     (if Code result \<noteq> 0 then Inl (Errorf_unexpected_survey_code (Code result))
      else (case Unmarshal_NodeManagedChannelsResponse im (Data result) of
              Inl err \<Rightarrow> Inl (Foreign err)
            | Inr res \<Rightarrow>
                (case CallManagedStreams_merge channels (Channels res) of
                   Inl err \<Rightarrow> Inl err
                 | Inr channels' \<Rightarrow> CallManagedStreams_loop im channels' rest)))"

text \<open>
  The values of the map are collected and sorted by \<^verbatim>\<open>Channel\<close> with \<^verbatim>\<open>sort.Slice\<close>.
  The keys of a map are distinct and every value is stored under its own
  \<^verbatim>\<open>Channel\<close>, so the sorted slice does not depend on the order in which the map is
  read nor on the sorting algorithm (lemma \<open>sorted_values_unique\<close> below).
\<close>

definition CallManagedStreams ::
  "('w, 'e, 'x, 's, 'p, 'r::plus, 'z) Caller \<Rightarrow> ('e, 's, 'p, 'r, 'z) imported \<Rightarrow> int64 \<Rightarrow>
     ('w, 'x) state \<Rightarrow> ('e error + ('r, 'z) ManagedChannel_scheme list) \<times> ('w, 'x) state" where
  "CallManagedStreams c im orgID s =
     (case Marshal_NodeManagedChannelsRequest im \<lparr>req_OrgID = orgID\<rparr> of
        Inl err \<Rightarrow> (Inl (Foreign err), s)
      | Inr jsonData \<Rightarrow>
          (case logged (Called_Survey managedStreamsCall jsonData [])
                  (Survey c managedStreamsCall jsonData []) s of
             (Inl err, s1) \<Rightarrow> (Inl (Foreign err), s1)
           | (Inr resp, s1) \<Rightarrow>
               (case CallManagedStreams_loop im [] resp of
                  Inl err \<Rightarrow> (Inl err, s1)
                | Inr channels \<Rightarrow> (Inr (sort_key Channel (map snd channels)), s1))))"

subsection \<open>The merge, as the specification words it\<close>

text \<open>
  The specification describes the result of the aggregation without the map. Of all the
  channels of all the answers, in the order in which they are met, take the
  \<open>occurrences\<close> of one channel name. The first one is inserted as it is and the rate
  of every later one is added to it, in that order, unless the name begins with
  \<^verbatim>\<open>plugin/testdata/\<close>: then the later ones are dropped. There is one such entry for
  each name, and the entries are sorted by name.
\<close>

definition occurrences ::
  "string \<Rightarrow> ('r, 'z) ManagedChannel_scheme list \<Rightarrow> ('r, 'z) ManagedChannel_scheme list" where
  "occurrences name chs = filter (\<lambda>ch. Channel ch = name) chs"

definition merged_entry ::
  "('r::plus, 'z) ManagedChannel_scheme \<Rightarrow> ('r, 'z) ManagedChannel_scheme list \<Rightarrow>
     ('r, 'z) ManagedChannel_scheme" where
  "merged_entry first later =
     (if HasPrefix (Channel first) ''plugin/testdata/'' then first
      else first\<lparr>MinuteRate := foldl (+) (MinuteRate first) (map MinuteRate later)\<rparr>)"

definition merged_channels ::
  "('r::plus, 'z) ManagedChannel_scheme list \<Rightarrow> ('r, 'z) ManagedChannel_scheme list" where
  "merged_channels chs =
     map (\<lambda>name. merged_entry (hd (occurrences name chs)) (tl (occurrences name chs)))
       (sort (remdups (map Channel chs)))"

text \<open>
  What the map \<^verbatim>\<open>channels\<close> holds after the channels \<open>chs\<close> have been merged into the
  empty map: the invariant of both loops.
\<close>

definition holds_merge_of ::
  "(string \<times> ('r::plus, 'z) ManagedChannel_scheme) list \<Rightarrow>
     ('r, 'z) ManagedChannel_scheme list \<Rightarrow> bool" where
  "holds_merge_of channels chs \<longleftrightarrow>
     distinct (map fst channels) \<and>
     (\<forall>name. map_of channels name =
        (case occurrences name chs of
           [] \<Rightarrow> None
         | first # later \<Rightarrow> Some (merged_entry first later)))"

subsection \<open>A small cluster to run the definitions on\<close>

text \<open>
  Node \<open>node-1\<close> answers surveys; it is the leader of the channel under the token
  \<open>t1\<close>. Payloads are single bytes that the stand-in for \<^verbatim>\<open>encoding/json\<close> decodes by
  table. The world counts the calls that reach a collaborator.
\<close>

definition ex_req_other :: PluginSubscribeStreamRequest where
  "ex_req_other = \<lparr>OrgID = 1, UserID = 7, sub_Channel = ''plugin/demo/tick'',
                    LeaderNodeID = ''node-2'', LeadershipID = ''t1''\<rparr>"

definition ex_req_stale :: PluginSubscribeStreamRequest where
  "ex_req_stale = \<lparr>OrgID = 1, UserID = 7, sub_Channel = ''plugin/demo/tick'',
                    LeaderNodeID = ''node-1'', LeadershipID = ''t0''\<rparr>"

definition ex_req_negative :: PluginSubscribeStreamRequest where
  "ex_req_negative = \<lparr>OrgID = 1, UserID = - 5, sub_Channel = ''plugin/demo/tick'',
                       LeaderNodeID = ''node-1'', LeadershipID = ''t1''\<rparr>"

definition ex_answer_A :: "(real, unit) NodeManagedChannelsResponse" where
  "ex_answer_A = \<lparr>Channels = [Some \<lparr>Channel = ''x/a'', MinuteRate = 1\<rparr>]\<rparr>"

definition ex_answer_B :: "(real, unit) NodeManagedChannelsResponse" where
  "ex_answer_B = \<lparr>Channels = [Some \<lparr>Channel = ''x/a'', MinuteRate = 2\<rparr>,
                               Some \<lparr>Channel = ''x/b'', MinuteRate = 5\<rparr>]\<rparr>"

definition ex_answer_C :: "(real, unit) NodeManagedChannelsResponse" where
  "ex_answer_C = \<lparr>Channels = [Some \<lparr>Channel = ''plugin/testdata/foo'', MinuteRate = 100\<rparr>]\<rparr>"

definition ex_imported :: "(string, nat, nat, real, unit) imported" where
  "ex_imported =
     \<lparr>Unmarshal_NodeManagedChannelsRequest =
        (\<lambda>d. case d of [b] \<Rightarrow> Inr \<lparr>req_OrgID = ucast b\<rparr> | _ \<Rightarrow> Inl ''invalid character''),
      Unmarshal_NodeManagedChannelsResponse =
        (\<lambda>d. if d = [10] then Inr ex_answer_A
             else if d = [11] then Inr ex_answer_B
             else if d = [12] then Inr ex_answer_C
             else Inl ''invalid character''),
      Unmarshal_PluginSubscribeStreamRequest =
        (\<lambda>d. if d = [1] then Inr ex_req_other
             else if d = [2] then Inr ex_req_stale
             else if d = [3] then Inr ex_req_negative
             else Inl ''invalid character''),
      Unmarshal_PluginSubscribeStreamResponse =
        (\<lambda>d. if d = [20] then Inr \<lparr>Status = 2, Reply = 42\<rparr> else Inl ''invalid character''),
      Marshal_NodeManagedChannelsRequest = (\<lambda>req. Inr [ucast (req_OrgID req)]),
      Marshal_PluginSubscribeStreamRequest = (\<lambda>req. Inr [30]),
      Marshal_response =
        (\<lambda>resp. case resp of ManagedChannels r \<Rightarrow> Inr [40] | PluginSubscribe r \<Rightarrow> Inr [41]),
      PrependOrgID = (\<lambda>orgID channel. ''1/'' @ channel)\<rparr>"

definition ex_replies :: "string \<Rightarrow> bytes \<Rightarrow> string \<Rightarrow> (string \<times> SurveyResult) list" where
  "ex_replies op data toNodeID =
     (if op = managedStreamsCall
      then (if data = [1]
            then [(''node-1'', \<lparr>Code = 0, Data = [10]\<rparr>), (''node-2'', \<lparr>Code = 0, Data = [11]\<rparr>),
                  (''node-3'', \<lparr>Code = 0, Data = [12]\<rparr>), (''node-4'', \<lparr>Code = 0, Data = [12]\<rparr>)]
            else [(''node-1'', \<lparr>Code = 0, Data = [10]\<rparr>), (''node-2'', \<lparr>Code = 1, Data = []\<rparr>)])
      else if toNodeID = ''node-1''
      then [(''node-3'', \<lparr>Code = 0, Data = []\<rparr>), (''node-1'', \<lparr>Code = 0, Data = [20]\<rparr>)]
      else if toNodeID = ''node-2''
      then [(''node-3'', \<lparr>Code = 0, Data = []\<rparr>)]
      else if toNodeID = ''node-4''
      then [(''node-2'', \<lparr>Code = 0, Data = []\<rparr>), (''node-3'', \<lparr>Code = 1, Data = []\<rparr>),
            (''node-4'', \<lparr>Code = 0, Data = [20]\<rparr>)]
      else [(toNodeID, \<lparr>Code = 0, Data = [20]\<rparr>), (''node-3'', \<lparr>Code = 1, Data = []\<rparr>)])"

definition ex_handler :: "(nat, string, nat, nat, nat) ChannelHandler" where
  "ex_handler user event w = (Inr (42, 2), Suc w)"

definition ex_Caller :: "(nat, string, nat, nat, nat, real, unit) Caller" where
  "ex_Caller =
     \<lparr>GetChannelHandler = (\<lambda>user channel w. (Inr (ex_handler, \<lparr>Path = ''tick''\<rparr>), Suc w)),
      GetManagedChannels =
        (\<lambda>orgID w. if orgID = 1 then (Inr (Channels ex_answer_B), Suc w)
                   else (Inl ''no such organization'', Suc w)),
      Dispatch = (\<lambda>query w. (Inl ''user not found'', Suc w)),
      node_ID = ''node-1'',
      Survey = (\<lambda>op data toNodeID w. (Inr (ex_replies op data toNodeID), Suc w)),
      GetLeader = (\<lambda>key w. (Inr (True, ''node-1'', ''t1''), Suc w))\<rparr>"

definition ex_state :: "(nat, nat) state" where
  "ex_state = \<lparr>world = 0, calls = []\<rparr>"

definition ex_user :: "nat SignedInUser_scheme" where
  "ex_user = \<lparr>UserId = 7, OrgId = 1, \<dots> = 0\<rparr>"

section \<open>Properties\<close>

subsection \<open>Auxiliary facts\<close>

lemma logged_eq:
  "f (world s) = (r, w') \<Longrightarrow> logged ev f s = (r, \<lparr>world = w', calls = calls s @ [ev]\<rparr>)"
  by (simp add: logged_def)

lemmas ex_defs = ex_imported_def ex_Caller_def ex_state_def ex_req_other_def ex_req_stale_def
  ex_req_negative_def ex_replies_def ex_handler_def ex_user_def ex_answer_A_def ex_answer_B_def
  ex_answer_C_def managedStreamsCall_def pluginSubscribeStream_def

lemma CallManagedStreams_loop_nonzero:
  "(n, r) \<in> set resp \<Longrightarrow> Code r \<noteq> 0 \<Longrightarrow>
   \<exists>err. CallManagedStreams_loop im channels resp = Inl err"
  by (induction resp arbitrary: channels) (auto split: sum.splits)

lemma CallPluginSubscribeStream_eq:
  "Marshal_PluginSubscribeStreamRequest im
     \<lparr>OrgID = OrgId user, UserID = UserId user, sub_Channel = channel,
      LeaderNodeID = leaderNodeID, LeadershipID = leadershipID\<rparr> = Inr jsonData \<Longrightarrow>
   Survey c pluginSubscribeStream jsonData leaderNodeID (world s) = (Inr resp, w') \<Longrightarrow>
   fst (CallPluginSubscribeStream c im user channel leaderNodeID leadershipID s) =
   CallPluginSubscribeStream_loop im leaderNodeID resp"
  by (simp add: CallPluginSubscribeStream_def logged_eq)

lemma loop_reaches_nonzero:
  "\<forall>(n', r') \<in> set pre. n' \<noteq> leaderNodeID \<Longrightarrow> Code r \<noteq> 0 \<Longrightarrow>
   \<exists>code. code \<noteq> 0 \<and>
     CallPluginSubscribeStream_loop im leaderNodeID (pre @ (n, r) # post) =
       Inl (Errorf_unexpected_survey_code code)"
  by (induction pre) auto

lemma loop_returns_leader_reply:
  assumes "distinct (map fst resp)"
    and "(leaderNodeID, r) \<in> set resp"
    and "Code r = 0"
    and "Unmarshal_PluginSubscribeStreamResponse im (Data r) = Inr res"
    and "\<forall>(n, r') \<in> set resp. n \<noteq> leaderNodeID \<longrightarrow> Code r' = 0"
  shows "CallPluginSubscribeStream_loop im leaderNodeID resp = Inr (Reply res, Status res)"
  using assms
proof (induction resp)
  case Nil
  then show ?case by simp
next
  case (Cons a resp)
  obtain n r' where a: "a = (n, r')" by (cases a)
  show ?case
  proof (cases "n = leaderNodeID")
    case True
    with Cons.prems a have "r' = r" by (auto simp: image_iff)
    with True a Cons.prems show ?thesis by simp
  next
    case False
    with Cons a show ?thesis by auto
  qed
qed

lemma loop_not_responded_iff:
  "CallPluginSubscribeStream_loop im leaderNodeID resp = Inl (New ''leader node not responded'')
   \<longleftrightarrow> (\<forall>(n, r) \<in> set resp. Code r = 0 \<and> n \<noteq> leaderNodeID)"
  by (induction resp) (auto split: sum.splits if_splits)

subsection \<open>The invariant of the merge\<close>

lemma occurrences_snoc:
  "occurrences name (chs @ [c]) =
     occurrences name chs @ (if Channel c = name then [c] else [])"
  by (simp add: occurrences_def)

lemma merged_entry_Nil: "merged_entry c [] = c"
  by (simp add: merged_entry_def)

lemma Channel_merged_entry: "Channel (merged_entry first later) = Channel first"
  by (simp add: merged_entry_def)

lemma merged_entry_snoc_testdata:
  "HasPrefix (Channel first) ''plugin/testdata/'' \<Longrightarrow>
   merged_entry first (later @ [c]) = merged_entry first later"
  by (simp add: merged_entry_def)

lemma merged_entry_snoc:
  "\<not> HasPrefix (Channel first) ''plugin/testdata/'' \<Longrightarrow>
   merged_entry first (later @ [c]) =
     (merged_entry first later)\<lparr>MinuteRate := MinuteRate (merged_entry first later) + MinuteRate c\<rparr>"
  by (simp add: merged_entry_def)

lemma occurrences_Channel:
  "occurrences name chs = first # later \<Longrightarrow> Channel first = name"
  by (metis (mono_tags, lifting) filter_eq_ConsD list.set_intros(1) mem_Collect_eq occurrences_def set_filter)

lemma holds_new:
  assumes "holds_merge_of channels chs" and "map_of channels (Channel c) = None"
  shows "holds_merge_of (channels @ [(Channel c, c)]) (chs @ [c])"
proof -
  from assms have occ: "occurrences (Channel c) chs = []"
    by (auto simp: holds_merge_of_def split: list.splits)
  from assms(2) have "Channel c \<notin> fst ` set channels"
    by (simp add: map_of_eq_None_iff)
  with assms(1) have d: "distinct (map fst (channels @ [(Channel c, c)]))"
    by (simp add: holds_merge_of_def)
  have "map_of (channels @ [(Channel c, c)]) name =
        (case occurrences name (chs @ [c]) of [] \<Rightarrow> None
         | first # later \<Rightarrow> Some (merged_entry first later))" for name
  proof (cases "name = Channel c")
    case True
    with assms(2) occ show ?thesis
      by (simp add: occurrences_snoc merged_entry_Nil map_add_def)
  next
    case False
    with assms(1) show ?thesis
      by (simp add: occurrences_snoc holds_merge_of_def map_add_def split: list.splits)
  qed
  with d show ?thesis by (simp add: holds_merge_of_def)
qed

lemma holds_testdata:
  assumes "holds_merge_of channels chs" and "map_of channels (Channel c) = Some old"
    and "HasPrefix (Channel c) ''plugin/testdata/''"
  shows "holds_merge_of channels (chs @ [c])"
proof -
  from assms(1,2) obtain first later where occ: "occurrences (Channel c) chs = first # later"
    and old: "old = merged_entry first later"
    by (auto simp: holds_merge_of_def split: list.splits)
  from occ have cf: "Channel first = Channel c" by (rule occurrences_Channel)
  have "map_of channels name =
        (case occurrences name (chs @ [c]) of [] \<Rightarrow> None
         | first # later \<Rightarrow> Some (merged_entry first later))" for name
  proof (cases "name = Channel c")
    case True
    with assms occ old cf show ?thesis
      by (simp add: occurrences_snoc merged_entry_snoc_testdata)
  next
    case False
    with assms(1) show ?thesis
      by (simp add: occurrences_snoc holds_merge_of_def)
  qed
  with assms(1) show ?thesis by (simp add: holds_merge_of_def)
qed

lemma holds_sum:
  assumes "holds_merge_of channels chs" and "map_of channels (Channel c) = Some old"
    and "\<not> HasPrefix (Channel c) ''plugin/testdata/''"
  shows "holds_merge_of
           (AList.update (Channel c) (old\<lparr>MinuteRate := MinuteRate old + MinuteRate c\<rparr>) channels)
           (chs @ [c])"
proof -
  from assms(1,2) obtain first later where occ: "occurrences (Channel c) chs = first # later"
    and old: "old = merged_entry first later"
    by (auto simp: holds_merge_of_def split: list.splits)
  from occ have cf: "Channel first = Channel c" by (rule occurrences_Channel)
  have "map_of (AList.update (Channel c) (old\<lparr>MinuteRate := MinuteRate old + MinuteRate c\<rparr>) channels) name =
        (case occurrences name (chs @ [c]) of [] \<Rightarrow> None
         | first # later \<Rightarrow> Some (merged_entry first later))" for name
  proof (cases "name = Channel c")
    case True
    with assms occ old cf show ?thesis
      by (simp add: occurrences_snoc merged_entry_snoc update_conv')
  next
    case False
    with assms(1) show ?thesis
      by (simp add: occurrences_snoc holds_merge_of_def update_conv')
  qed
  with assms(1) show ?thesis by (simp add: holds_merge_of_def distinct_update)
qed

lemma merge_holds:
  "holds_merge_of channels chs \<Longrightarrow>
   \<exists>channels'. CallManagedStreams_merge channels (map Some new) = Inr channels' \<and>
     holds_merge_of channels' (chs @ new)"
proof (induction new arbitrary: channels chs)
  case Nil
  then show ?case by simp
next
  case (Cons c new)
  show ?case
  proof (cases "map_of channels (Channel c)")
    case None
    from Cons.IH [OF holds_new [OF Cons.prems None]] None show ?thesis by simp
  next
    case (Some old)
    show ?thesis
    proof (cases "HasPrefix (Channel c) ''plugin/testdata/''")
      case True
      from Cons.IH [OF holds_testdata [OF Cons.prems Some True]] Some True show ?thesis by simp
    next
      case False
      from Cons.IH [OF holds_sum [OF Cons.prems Some False]] Some False show ?thesis by simp
    qed
  qed
qed

lemma loop_holds:
  fixes im :: "('e, 's, 'p, 'r::plus, 'z) imported"
  assumes "list_all2 (\<lambda>(n, r) answer. Code r = 0 \<and>
             Unmarshal_NodeManagedChannelsResponse im (Data r) = Inr \<lparr>Channels = map Some answer\<rparr>)
             resp answers"
    and "holds_merge_of channels chs"
  shows "\<exists>channels'. CallManagedStreams_loop im channels resp = Inr channels' \<and>
     holds_merge_of channels' (chs @ concat answers)"
  using assms
proof (induction resp answers arbitrary: channels chs rule: list_all2_induct)
  case Nil
  then show ?case by simp
next
  case (Cons x resp answer answers)
  obtain n r where x: "x = (n, r)" by (cases x)
  from merge_holds [OF Cons.prems, of answer] obtain channels'
    where m: "CallManagedStreams_merge channels (map Some answer) =
                (Inr channels' :: 'e error + (string \<times> ('r, 'z) ManagedChannel_scheme) list)"
      and h: "holds_merge_of channels' (chs @ answer)"
    by blast
  from Cons.IH [OF h] obtain channels''
    where "CallManagedStreams_loop im channels' resp = Inr channels''"
      and "holds_merge_of channels'' ((chs @ answer) @ concat answers)"
    by blast
  with Cons.hyps(1) x m show ?case by simp
qed

lemma holds_sorted:
  assumes "holds_merge_of channels chs"
  shows "sort_key Channel (map snd channels) = merged_channels chs"
proof (rule sort_key_inj_key_eq)
  let ?g = "\<lambda>name. merged_entry (hd (occurrences name chs)) (tl (occurrences name chs))"
  from assms have d: "distinct (map fst channels)"
    and look: "\<And>name. map_of channels name =
        (case occurrences name chs of [] \<Rightarrow> None
         | first # later \<Rightarrow> Some (merged_entry first later))"
    by (simp_all add: holds_merge_of_def)
  have val: "v = ?g k \<and> Channel v = k" if "(k, v) \<in> set channels" for k v
  proof -
    from that d have "map_of channels k = Some v" by simp
    with look [of k] obtain first later where occ: "occurrences k chs = first # later"
      and v: "v = merged_entry first later"
      by (auto split: list.splits)
    from occ have "Channel first = k" by (rule occurrences_Channel)
    with occ v show ?thesis by (simp add: Channel_merged_entry)
  qed
  have keys: "set (map fst channels) = set (map Channel chs)"
  proof -
    have "k \<in> fst ` set channels \<longleftrightarrow> k \<in> Channel ` set chs" for k
    proof -
      have "k \<in> fst ` set channels \<longleftrightarrow> map_of channels k \<noteq> None"
        by (simp add: map_of_eq_None_iff)
      also have "\<dots> \<longleftrightarrow> occurrences k chs \<noteq> []"
        by (simp add: look split: list.splits)
      also have "\<dots> \<longleftrightarrow> k \<in> Channel ` set chs"
        by (auto simp: occurrences_def filter_empty_conv)
      finally show ?thesis .
    qed
    then show ?thesis by auto
  qed
  have snd_eq: "map snd channels = map ?g (map fst channels)"
    using val by (auto simp: comp_def)
  have "mset (map fst channels) = mset (remdups (map Channel chs))"
    using d keys by (subst set_eq_iff_mset_eq_distinct [symmetric]) simp_all
  then have "mset (map fst channels) = mset (sort (remdups (map Channel chs)))"
    by simp
  then have "image_mset ?g (mset (map fst channels)) =
             image_mset ?g (mset (sort (remdups (map Channel chs))))"
    by (rule arg_cong)
  then have "mset (map ?g (map fst channels)) = mset (map ?g (sort (remdups (map Channel chs))))"
    by (simp only: mset_map)
  then show "mset (map snd channels) = mset (merged_channels chs)"
    by (simp only: snd_eq merged_channels_def)
  show "inj_on Channel (set (map snd channels))"
  proof (rule inj_onI)
    fix v w assume "v \<in> set (map snd channels)" "w \<in> set (map snd channels)"
      and eq: "Channel v = Channel w"
    then obtain k l where "(k, v) \<in> set channels" "(l, w) \<in> set channels" by auto
    with val [of k v] val [of l w] eq show "v = w" by simp
  qed
  have "map Channel (merged_channels chs) = sort (remdups (map Channel chs))"
  proof -
    have "Channel (?g k) = k" if "k \<in> set (map Channel chs)" for k
    proof -
      from that have "occurrences k chs \<noteq> []"
        by (auto simp: occurrences_def filter_empty_conv)
      then obtain first later where occ: "occurrences k chs = first # later"
        by (cases "occurrences k chs") auto
      from occ have "Channel first = k" by (rule occurrences_Channel)
      with occ show ?thesis by (simp add: Channel_merged_entry)
    qed
    then have "map (\<lambda>k. Channel (?g k)) (sort (remdups (map Channel chs))) =
               sort (remdups (map Channel chs))"
      by (intro map_idI) simp
    then show ?thesis
      by (simp add: merged_channels_def comp_def)
  qed
  then show "sorted (map Channel (merged_channels chs))" by simp
qed

lemma mset_singleton_list: "mset xs = {#a#} \<Longrightarrow> xs = [a]"
  by (cases xs) auto

lemma mset_pair_list: "mset xs = {#a, b#} \<Longrightarrow> xs = [a, b] \<or> xs = [b, a]"
proof (cases xs)
  case Nil
  assume "mset xs = {#a, b#}"
  with Nil show ?thesis by simp
next
  case (Cons x ys)
  assume "mset xs = {#a, b#}"
  with Cons have "add_mset x (mset ys) = {#a, b#}" by simp
  then have "(x = a \<and> mset ys = {#b#}) \<or> (x = b \<and> mset ys = {#a#})"
    by (auto simp: add_eq_conv_ex)
  with Cons show ?thesis by (auto dest: mset_singleton_list)
qed

lemma mset_concat_sum: "mset (concat xss) = sum_mset (image_mset mset (mset xss))"
  by (induction xss) auto

lemma mset_occurrences:
  "mset (occurrences name chs) = filter_mset (\<lambda>ch. Channel ch = name) (mset chs)"
  by (simp add: occurrences_def)

lemma example_merged_channels:
  fixes chs :: "real ManagedChannel list"
  assumes "mset chs =
     {#\<lparr>Channel = ''x/a'', MinuteRate = 1\<rparr>, \<lparr>Channel = ''x/a'', MinuteRate = 2\<rparr>,
       \<lparr>Channel = ''x/b'', MinuteRate = 5\<rparr>,
       \<lparr>Channel = ''plugin/testdata/foo'', MinuteRate = 100\<rparr>,
       \<lparr>Channel = ''plugin/testdata/foo'', MinuteRate = 100\<rparr>#}"
  shows "merged_channels chs =
     [\<lparr>Channel = ''plugin/testdata/foo'', MinuteRate = 100\<rparr>,
      \<lparr>Channel = ''x/a'', MinuteRate = 3\<rparr>, \<lparr>Channel = ''x/b'', MinuteRate = 5\<rparr>]"
proof -
  have "set (map Channel chs) = Channel ` set_mset (mset chs)" by simp
  also have "\<dots> = {''x/a'', ''x/b'', ''plugin/testdata/foo''}"
    unfolding assms by auto
  finally have "sort (remdups (map Channel chs)) =
      sorted_list_of_set {''x/a'', ''x/b'', ''plugin/testdata/foo''}"
    by (metis sorted_list_of_set_sort_remdups)
  then have names: "sort (remdups (map Channel chs)) = [''plugin/testdata/foo'', ''x/a'', ''x/b'']"
    by (simp add: sorted_list_of_set_insert_remove)
  have "mset (occurrences ''plugin/testdata/foo'' chs) =
      {#\<lparr>Channel = ''plugin/testdata/foo'', MinuteRate = 100\<rparr>,
        \<lparr>Channel = ''plugin/testdata/foo'', MinuteRate = 100::real\<rparr>#}"
    unfolding mset_occurrences assms by simp
  then have foo: "occurrences ''plugin/testdata/foo'' chs =
      [\<lparr>Channel = ''plugin/testdata/foo'', MinuteRate = 100\<rparr>,
       \<lparr>Channel = ''plugin/testdata/foo'', MinuteRate = 100\<rparr>]"
    by (auto dest: mset_pair_list)
  have "mset (occurrences ''x/a'' chs) =
      {#\<lparr>Channel = ''x/a'', MinuteRate = 1\<rparr>, \<lparr>Channel = ''x/a'', MinuteRate = 2::real\<rparr>#}"
    unfolding mset_occurrences assms by simp
  then have xa: "occurrences ''x/a'' chs =
        [\<lparr>Channel = ''x/a'', MinuteRate = 1\<rparr>, \<lparr>Channel = ''x/a'', MinuteRate = 2\<rparr>]
      \<or> occurrences ''x/a'' chs =
        [\<lparr>Channel = ''x/a'', MinuteRate = 2\<rparr>, \<lparr>Channel = ''x/a'', MinuteRate = 1\<rparr>]"
    by (rule mset_pair_list)
  have "mset (occurrences ''x/b'' chs) = {#\<lparr>Channel = ''x/b'', MinuteRate = 5::real\<rparr>#}"
    unfolding mset_occurrences assms by simp
  then have xb: "occurrences ''x/b'' chs = [\<lparr>Channel = ''x/b'', MinuteRate = 5\<rparr>]"
    by (rule mset_singleton_list)
  from xa show ?thesis
    by (auto simp add: merged_channels_def names foo xb merged_entry_def HasPrefix_def)
qed

lemma Channel_merged_channels:
  "map Channel (merged_channels chs) = sort (remdups (map Channel chs))"
proof -
  let ?g = "\<lambda>name. merged_entry (hd (occurrences name chs)) (tl (occurrences name chs))"
  have "Channel (?g k) = k" if "k \<in> set (map Channel chs)" for k
  proof -
    from that have "occurrences k chs \<noteq> []"
      by (auto simp: occurrences_def filter_empty_conv)
    then obtain first later where occ: "occurrences k chs = first # later"
      by (cases "occurrences k chs") auto
    from occ have "Channel first = k" by (rule occurrences_Channel)
    with occ show ?thesis by (simp add: Channel_merged_entry)
  qed
  then have "map (\<lambda>k. Channel (?g k)) (sort (remdups (map Channel chs))) =
             sort (remdups (map Channel chs))"
    by (intro map_idI) simp
  then show ?thesis
    by (simp add: merged_channels_def comp_def)
qed

lemma holds_Channel_is_key:
  assumes "holds_merge_of channels chs" and "(k, v) \<in> set channels"
  shows "Channel v = k"
proof -
  from assms have "distinct (map fst channels)"
    by (simp add: holds_merge_of_def)
  with assms(2) have "map_of channels k = Some v"
    by simp
  with assms(1) obtain first later where occ: "occurrences k chs = first # later"
    and v: "v = merged_entry first later"
    by (auto simp: holds_merge_of_def split: list.splits)
  from occ have "Channel first = k" by (rule occurrences_Channel)
  with v show ?thesis by (simp add: Channel_merged_entry)
qed

lemma holds_inj_on_Channel:
  assumes "holds_merge_of channels chs"
  shows "inj_on Channel (set (map snd channels))"
proof (rule inj_onI)
  fix v w
  assume "v \<in> set (map snd channels)" and "w \<in> set (map snd channels)"
    and eq: "Channel v = Channel w"
  then obtain k l where kv: "(k, v) \<in> set channels" and lw: "(l, w) \<in> set channels"
    by auto
  from holds_Channel_is_key [OF assms kv] holds_Channel_is_key [OF assms lw] eq
  have "k = l" by simp
  with kv lw assms show "v = w"
    by (auto simp: holds_merge_of_def dest: eq_key_imp_eq_value)
qed

lemma sorted_values_unique:
  assumes "holds_merge_of channels chs"
    and "mset ys = mset (map snd channels)"
    and "sorted (map Channel ys)"
  shows "ys = sort_key Channel (map snd channels)"
  using sort_key_inj_key_eq [OF assms(2) [symmetric] holds_inj_on_Channel [OF assms(1)] assms(3)]
  by simp

text \<open>
  The code itself, run on the four replies of the example cluster in the order
  \<open>node-1\<close> to \<open>node-4\<close>, without the detour over \<open>merged_channels\<close>.
\<close>

lemma CallManagedStreams_runs_example:
  "fst (CallManagedStreams ex_Caller ex_imported 1 ex_state) =
     Inr [\<lparr>Channel = ''plugin/testdata/foo'', MinuteRate = 100\<rparr>,
          \<lparr>Channel = ''x/a'', MinuteRate = 3\<rparr>, \<lparr>Channel = ''x/b'', MinuteRate = 5\<rparr>]"
  by (simp add: CallManagedStreams_def logged_def ex_defs HasPrefix_def)

subsection \<open>The leader-fenced subscribe handler\<close>

text \<open>
  Claim C1. A request addressed to this node is decoded, and the leader manager answers
  without error but reports no leader, or a leadership token other than the request's.
  Then the handler fails with "leader changed"; the leader manager is the only
  collaborator it has called, the world is the one that call left, and no
  \<^verbatim>\<open>OnSubscribe\<close> call has been added to the log.
\<close>

theorem fencing_rejects_stale_leadership:
  assumes "Unmarshal_PluginSubscribeStreamRequest im data = Inr req"
    and "LeaderNodeID req = node_ID c"
    and "GetLeader c (PrependOrgID im (OrgID req) (sub_Channel req)) (world s) =
           (Inr (ok, leaderNode, currentLeadershipID), w')"
    and "\<not> ok \<or> currentLeadershipID \<noteq> LeadershipID req"
  shows "handlePluginSubscribeStream c im data s =
           (Inl (New ''leader changed''),
            \<lparr>world = w',
             calls = calls s @ [Called_GetLeader (PrependOrgID im (OrgID req) (sub_Channel req))]\<rparr>)
         \<and> filter is_OnSubscribe (calls (snd (handlePluginSubscribeStream c im data s))) =
             filter is_OnSubscribe (calls s)"
  using assms by (auto simp add: handlePluginSubscribeStream_def logged_eq Let_def)

theorem fencing_rejects_stale_leadership_witness:
  "Unmarshal_PluginSubscribeStreamRequest ex_imported [2] = Inr ex_req_stale
   \<and> LeaderNodeID ex_req_stale = node_ID ex_Caller
   \<and> GetLeader ex_Caller (PrependOrgID ex_imported (OrgID ex_req_stale) (sub_Channel ex_req_stale))
        (world ex_state) = (Inr (True, ''node-1'', ''t1''), 1)
   \<and> ''t1'' \<noteq> LeadershipID ex_req_stale
   \<and> handlePluginSubscribeStream ex_Caller ex_imported [2] ex_state =
        (Inl (New ''leader changed''),
         \<lparr>world = 1, calls = [Called_GetLeader ''1/plugin/demo/tick'']\<rparr>)"
proof -
  have h1: "Unmarshal_PluginSubscribeStreamRequest ex_imported [2] = Inr ex_req_stale"
    by (simp add: ex_defs)
  have h2: "LeaderNodeID ex_req_stale = node_ID ex_Caller"
    by (simp add: ex_defs)
  have h3: "GetLeader ex_Caller
              (PrependOrgID ex_imported (OrgID ex_req_stale) (sub_Channel ex_req_stale))
              (world ex_state) = (Inr (True, ''node-1'', ''t1''), 1)"
    by (simp add: ex_defs)
  have h4: "\<not> True \<or> ''t1'' \<noteq> LeadershipID ex_req_stale"
    by (simp add: ex_defs)
  from fencing_rejects_stale_leadership [OF h1 h2 h3 h4] h1 h2 h3 h4 show ?thesis
    by (simp add: ex_defs)
qed

text \<open>
  Claim C2. A request whose leader node ID is not this node's ID gets the empty response
  with no error at once: the state comes back as it was, so neither the world nor the
  log of calls has changed, and no collaborator has been called.
\<close>

theorem other_node_gets_empty_answer:
  assumes "Unmarshal_PluginSubscribeStreamRequest im data = Inr req"
    and "LeaderNodeID req \<noteq> node_ID c"
  shows "handlePluginSubscribeStream c im data s = (Inr \<lparr>Status = 0, Reply = 0\<rparr>, s)"
  using assms by (simp add: handlePluginSubscribeStream_def)

theorem other_node_gets_empty_answer_witness:
  "Unmarshal_PluginSubscribeStreamRequest ex_imported [1] = Inr ex_req_other
   \<and> LeaderNodeID ex_req_other \<noteq> node_ID ex_Caller
   \<and> handlePluginSubscribeStream ex_Caller ex_imported [1] ex_state =
        (Inr \<lparr>Status = 0, Reply = 0\<rparr>, \<lparr>world = 0, calls = []\<rparr>)"
proof -
  have h1: "Unmarshal_PluginSubscribeStreamRequest ex_imported [1] = Inr ex_req_other"
    by (simp add: ex_defs)
  have h2: "LeaderNodeID ex_req_other \<noteq> node_ID ex_Caller"
    by (simp add: ex_defs)
  from other_node_gets_empty_answer [OF h1 h2, of ex_state] h1 h2 show ?thesis
    by (simp add: ex_state_def)
qed

text \<open>
  Claim C10. The request has passed the self-check and the fencing check and its user ID,
  read as a signed 64-bit integer, is zero or negative. Then the calls of the handler
  are the leader check, \<^verbatim>\<open>GetChannelHandler\<close> with an identity that carries the
  organization ID and zero everywhere else, and, if a handler was found,
  \<^verbatim>\<open>OnSubscribe\<close> with that same identity: \<^verbatim>\<open>bus.Dispatch\<close> is not among them.
\<close>

theorem nonpositive_user_id_gets_synthesized_identity:
  assumes "Unmarshal_PluginSubscribeStreamRequest im data = Inr req"
    and "LeaderNodeID req = node_ID c"
    and "GetLeader c (PrependOrgID im (OrgID req) (sub_Channel req)) (world s) =
           (Inr (True, leaderNode, LeadershipID req), w1)"
    and "sint (UserID req) \<le> 0"
    and "user = Some \<lparr>UserId = 0, OrgId = OrgID req, \<dots> = 0\<rparr>"
    and "GetChannelHandler c user (sub_Channel req) w1 = (found, w2)"
  shows "calls (snd (handlePluginSubscribeStream c im data s)) =
           calls s @
           [Called_GetLeader (PrependOrgID im (OrgID req) (sub_Channel req)),
            Called_GetChannelHandler user (sub_Channel req)] @
           (case found of
              Inl err \<Rightarrow> []
            | Inr (handler, parsedChannel) \<Rightarrow>
                [Called_OnSubscribe user
                   \<lparr>ev_Channel = sub_Channel req, ev_Path = Path parsedChannel,
                    ev_LeadershipID = LeadershipID req\<rparr>])"
  using assms
  by (auto simp add: handlePluginSubscribeStream_def logged_eq logged_def Let_def
      split: sum.splits prod.splits)

theorem nonpositive_user_id_gets_synthesized_identity_witness:
  "Unmarshal_PluginSubscribeStreamRequest ex_imported [3] = Inr ex_req_negative
   \<and> LeaderNodeID ex_req_negative = node_ID ex_Caller
   \<and> GetLeader ex_Caller
        (PrependOrgID ex_imported (OrgID ex_req_negative) (sub_Channel ex_req_negative))
        (world ex_state) = (Inr (True, ''node-1'', LeadershipID ex_req_negative), 1)
   \<and> sint (UserID ex_req_negative) = - 5
   \<and> GetChannelHandler ex_Caller (Some \<lparr>UserId = 0, OrgId = 1, \<dots> = 0\<rparr>)
        (sub_Channel ex_req_negative) 1 = (Inr (ex_handler, \<lparr>Path = ''tick''\<rparr>), 2)
   \<and> calls (snd (handlePluginSubscribeStream ex_Caller ex_imported [3] ex_state)) =
        [Called_GetLeader ''1/plugin/demo/tick'',
         Called_GetChannelHandler (Some \<lparr>UserId = 0, OrgId = 1, \<dots> = 0\<rparr>) ''plugin/demo/tick'',
         Called_OnSubscribe (Some \<lparr>UserId = 0, OrgId = 1, \<dots> = 0\<rparr>)
           \<lparr>ev_Channel = ''plugin/demo/tick'', ev_Path = ''tick'', ev_LeadershipID = ''t1''\<rparr>]"
proof -
  have h1: "Unmarshal_PluginSubscribeStreamRequest ex_imported [3] = Inr ex_req_negative"
    by (simp add: ex_defs)
  have h2: "LeaderNodeID ex_req_negative = node_ID ex_Caller"
    by (simp add: ex_defs)
  have h3: "GetLeader ex_Caller
        (PrependOrgID ex_imported (OrgID ex_req_negative) (sub_Channel ex_req_negative))
        (world ex_state) = (Inr (True, ''node-1'', LeadershipID ex_req_negative), 1)"
    by (simp add: ex_defs)
  have h4: "sint (UserID ex_req_negative) = - 5"
    by (simp add: ex_defs)
  then have h4': "sint (UserID ex_req_negative) \<le> 0" by simp
  have h5: "Some \<lparr>UserId = 0, OrgId = 1, \<dots> = 0::nat\<rparr> =
              Some \<lparr>UserId = 0, OrgId = OrgID ex_req_negative, \<dots> = 0\<rparr>"
    by (simp add: ex_defs)
  have h6: "GetChannelHandler ex_Caller (Some \<lparr>UserId = 0, OrgId = 1, \<dots> = 0\<rparr>)
        (sub_Channel ex_req_negative) 1 = (Inr (ex_handler, \<lparr>Path = ''tick''\<rparr>), 2)"
    by (simp add: ex_defs)
  from nonpositive_user_id_gets_synthesized_identity [OF h1 h2 h3 h4' h5 h6] h1 h2 h3 h4 h6
  show ?thesis by (simp add: ex_defs)
qed

subsection \<open>The survey dispatcher\<close>

text \<open>
  Claim C8. The reply of the dispatcher has status code 1 and an empty payload when the
  operation name is neither of the two known names, when the payload of a known operation
  does not decode, and when the handler of a known operation returns an error, whatever
  that error is, so its text is not in the reply. A reply with status code 0 is only
  produced when the handler has returned a response, and its payload is the JSON encoding
  of that response.
\<close>

theorem handleSurvey_reply_codes:
  fixes c :: "('w, 'e, 'x::zero, 's::zero, 'p::zero, 'r, 'z) Caller"
  shows
  "(Op e \<noteq> managedStreamsCall \<and> Op e \<noteq> pluginSubscribeStream \<longrightarrow>
      handleSurvey c im e s = (\<lparr>Code = 1, Data = []\<rparr>, s))
   \<and> (Op e = managedStreamsCall \<longrightarrow>
        (\<forall>err. Unmarshal_NodeManagedChannelsRequest im (ev_Data e) = Inl err \<longrightarrow>
           handleSurvey c im e s = (\<lparr>Code = 1, Data = []\<rparr>, s))
      \<and> (\<forall>err. fst (handleManagedStreams c im (ev_Data e) s) = Inl err \<longrightarrow>
           fst (handleSurvey c im e s) = \<lparr>Code = 1, Data = []\<rparr>))
   \<and> (Op e = pluginSubscribeStream \<longrightarrow>
        (\<forall>err. Unmarshal_PluginSubscribeStreamRequest im (ev_Data e) = Inl err \<longrightarrow>
           handleSurvey c im e s = (\<lparr>Code = 1, Data = []\<rparr>, s))
      \<and> (\<forall>err. fst (handlePluginSubscribeStream c im (ev_Data e) s) = Inl err \<longrightarrow>
           fst (handleSurvey c im e s) = \<lparr>Code = 1, Data = []\<rparr>))
   \<and> (Code (fst (handleSurvey c im e s)) = 0 \<longrightarrow>
        (Op e = managedStreamsCall \<and>
           (\<exists>resp. fst (handleManagedStreams c im (ev_Data e) s) = Inr resp \<and>
                   Marshal_response im (ManagedChannels resp) =
                     Inr (Data (fst (handleSurvey c im e s)))))
      \<or> (Op e = pluginSubscribeStream \<and>
           (\<exists>resp. fst (handlePluginSubscribeStream c im (ev_Data e) s) = Inr resp \<and>
                   Marshal_response im (PluginSubscribe resp) =
                     Inr (Data (fst (handleSurvey c im e s))))))"
proof -
  have ne: "managedStreamsCall \<noteq> pluginSubscribeStream"
    by (simp add: managedStreamsCall_def pluginSubscribeStream_def)
  have unknown: "Op e \<noteq> managedStreamsCall \<and> Op e \<noteq> pluginSubscribeStream \<longrightarrow>
      handleSurvey c im e s = (\<lparr>Code = 1, Data = []\<rparr>, s)"
    by (simp add: handleSurvey_def)
  have m1: "Unmarshal_NodeManagedChannelsRequest im (ev_Data e) = Inl err \<Longrightarrow>
      handleManagedStreams c im (ev_Data e) s = (Inl (Foreign err), s)" for err
    by (simp add: handleManagedStreams_def)
  have p1: "Unmarshal_PluginSubscribeStreamRequest im (ev_Data e) = Inl err \<Longrightarrow>
      handlePluginSubscribeStream c im (ev_Data e) s = (Inl (Foreign err), s)" for err
    by (simp add: handlePluginSubscribeStream_def)
  have managed: "Op e = managedStreamsCall \<longrightarrow>
        (\<forall>err. Unmarshal_NodeManagedChannelsRequest im (ev_Data e) = Inl err \<longrightarrow>
           handleSurvey c im e s = (\<lparr>Code = 1, Data = []\<rparr>, s))
      \<and> (\<forall>err. fst (handleManagedStreams c im (ev_Data e) s) = Inl err \<longrightarrow>
           fst (handleSurvey c im e s) = \<lparr>Code = 1, Data = []\<rparr>)"
    by (auto simp add: handleSurvey_def m1 split: prod.splits)
  have plugin: "Op e = pluginSubscribeStream \<longrightarrow>
        (\<forall>err. Unmarshal_PluginSubscribeStreamRequest im (ev_Data e) = Inl err \<longrightarrow>
           handleSurvey c im e s = (\<lparr>Code = 1, Data = []\<rparr>, s))
      \<and> (\<forall>err. fst (handlePluginSubscribeStream c im (ev_Data e) s) = Inl err \<longrightarrow>
           fst (handleSurvey c im e s) = \<lparr>Code = 1, Data = []\<rparr>)"
    using ne by (auto simp add: handleSurvey_def p1 split: prod.splits)
  have ok: "Code (fst (handleSurvey c im e s)) = 0 \<longrightarrow>
        (Op e = managedStreamsCall \<and>
           (\<exists>resp. fst (handleManagedStreams c im (ev_Data e) s) = Inr resp \<and>
                   Marshal_response im (ManagedChannels resp) =
                     Inr (Data (fst (handleSurvey c im e s)))))
      \<or> (Op e = pluginSubscribeStream \<and>
           (\<exists>resp. fst (handlePluginSubscribeStream c im (ev_Data e) s) = Inr resp \<and>
                   Marshal_response im (PluginSubscribe resp) =
                     Inr (Data (fst (handleSurvey c im e s)))))"
  proof (cases "Op e = managedStreamsCall")
    case True
    obtain r s' where h: "handleManagedStreams c im (ev_Data e) s = (r, s')"
      by (cases "handleManagedStreams c im (ev_Data e) s")
    show ?thesis
    proof (cases r)
      case (Inl err)
      with True h show ?thesis by (simp add: handleSurvey_def)
    next
      case (Inr resp)
      with True h show ?thesis
        by (cases "Marshal_response im (ManagedChannels resp)") (simp_all add: handleSurvey_def)
    qed
  next
    case False
    note notManaged = False
    show ?thesis
    proof (cases "Op e = pluginSubscribeStream")
      case True
      obtain r s' where h: "handlePluginSubscribeStream c im (ev_Data e) s = (r, s')"
        by (cases "handlePluginSubscribeStream c im (ev_Data e) s")
      show ?thesis
      proof (cases r)
        case (Inl err)
        with True notManaged h show ?thesis by (simp add: handleSurvey_def)
      next
        case (Inr resp)
        with True notManaged h show ?thesis
          by (cases "Marshal_response im (PluginSubscribe resp)") (simp_all add: handleSurvey_def)
      qed
    next
      case False
      with notManaged show ?thesis by (simp add: handleSurvey_def)
    qed
  qed
  from unknown managed plugin ok show ?thesis by blast
qed

theorem handleSurvey_reply_codes_witness:
  "Op \<lparr>Op = ''restart'', ev_Data = [1]\<rparr> \<noteq> managedStreamsCall
   \<and> Op \<lparr>Op = ''restart'', ev_Data = [1]\<rparr> \<noteq> pluginSubscribeStream
   \<and> handleSurvey ex_Caller ex_imported \<lparr>Op = ''restart'', ev_Data = [1]\<rparr> ex_state =
       (\<lparr>Code = 1, Data = []\<rparr>, ex_state)
   \<and> Unmarshal_NodeManagedChannelsRequest ex_imported [] = Inl ''invalid character''
   \<and> handleSurvey ex_Caller ex_imported \<lparr>Op = managedStreamsCall, ev_Data = []\<rparr> ex_state =
       (\<lparr>Code = 1, Data = []\<rparr>, ex_state)
   \<and> fst (handlePluginSubscribeStream ex_Caller ex_imported [2] ex_state) =
       Inl (New ''leader changed'')
   \<and> fst (handleSurvey ex_Caller ex_imported \<lparr>Op = pluginSubscribeStream, ev_Data = [2]\<rparr> ex_state) =
       \<lparr>Code = 1, Data = []\<rparr>
   \<and> fst (handleSurvey ex_Caller ex_imported \<lparr>Op = managedStreamsCall, ev_Data = [1]\<rparr> ex_state) =
       \<lparr>Code = 0, Data = [40]\<rparr>
   \<and> (\<exists>resp. fst (handleManagedStreams ex_Caller ex_imported [1] ex_state) = Inr resp \<and>
              Marshal_response ex_imported (ManagedChannels resp) = Inr [40])"
proof -
  let ?e1 = "\<lparr>Op = ''restart'', ev_Data = [1]\<rparr>"
  let ?e2 = "\<lparr>Op = managedStreamsCall, ev_Data = []\<rparr>"
  let ?e3 = "\<lparr>Op = pluginSubscribeStream, ev_Data = [2]\<rparr>"
  let ?e4 = "\<lparr>Op = managedStreamsCall, ev_Data = [1]\<rparr>"
  have a1: "Op ?e1 \<noteq> managedStreamsCall \<and> Op ?e1 \<noteq> pluginSubscribeStream"
    by (simp add: managedStreamsCall_def pluginSubscribeStream_def)
  have a2: "Unmarshal_NodeManagedChannelsRequest ex_imported (ev_Data ?e2) =
              Inl ''invalid character''"
    by (simp add: ex_imported_def)
  have a3: "fst (handlePluginSubscribeStream ex_Caller ex_imported (ev_Data ?e3) ex_state) =
              Inl (New ''leader changed'')"
    by (simp add: handlePluginSubscribeStream_def logged_def ex_defs)
  have a4: "fst (handleSurvey ex_Caller ex_imported ?e4 ex_state) = \<lparr>Code = 0, Data = [40]\<rparr>"
    by (simp add: handleSurvey_def handleManagedStreams_def logged_def ex_defs)
  from handleSurvey_reply_codes [of ?e1 ex_Caller ex_imported ex_state] a1
  have b1: "handleSurvey ex_Caller ex_imported ?e1 ex_state = (\<lparr>Code = 1, Data = []\<rparr>, ex_state)"
    by blast
  from handleSurvey_reply_codes [of ?e2 ex_Caller ex_imported ex_state] a2
  have b2: "handleSurvey ex_Caller ex_imported ?e2 ex_state = (\<lparr>Code = 1, Data = []\<rparr>, ex_state)"
    by simp
  from handleSurvey_reply_codes [of ?e3 ex_Caller ex_imported ex_state] a3
  have b3: "fst (handleSurvey ex_Caller ex_imported ?e3 ex_state) = \<lparr>Code = 1, Data = []\<rparr>"
    by simp
  have ne: "managedStreamsCall \<noteq> pluginSubscribeStream"
    by (simp add: managedStreamsCall_def pluginSubscribeStream_def)
  from handleSurvey_reply_codes [of ?e4 ex_Caller ex_imported ex_state] a4 ne
  have b4: "\<exists>resp. fst (handleManagedStreams ex_Caller ex_imported [1] ex_state) = Inr resp \<and>
              Marshal_response ex_imported (ManagedChannels resp) = Inr [40]"
    by simp
  from a1 a2 a3 a4 b1 b2 b3 b4 show ?thesis by simp
qed

subsection \<open>The local managed-channels handler\<close>

text \<open>
  Claim C9. For the organization ID of the decoded request, the handler calls the
  managed-stream runner once and returns the very list it produced, or the very error it
  returned.
\<close>

theorem handleManagedStreams_passes_list_through:
  assumes "Unmarshal_NodeManagedChannelsRequest im data = Inr \<lparr>req_OrgID = orgID\<rparr>"
    and "GetManagedChannels c orgID (world s) = (r, w')"
  shows "handleManagedStreams c im data s =
           ((case r of Inl err \<Rightarrow> Inl (Foreign err) | Inr channels \<Rightarrow> Inr \<lparr>Channels = channels\<rparr>),
            \<lparr>world = w', calls = calls s @ [Called_GetManagedChannels orgID]\<rparr>)"
  using assms by (simp add: handleManagedStreams_def logged_eq split: sum.splits)

theorem handleManagedStreams_passes_list_through_witness:
  "Unmarshal_NodeManagedChannelsRequest ex_imported [1] = Inr \<lparr>req_OrgID = 1\<rparr>
   \<and> GetManagedChannels ex_Caller 1 (world ex_state) =
        (Inr [Some \<lparr>Channel = ''x/a'', MinuteRate = 2\<rparr>, Some \<lparr>Channel = ''x/b'', MinuteRate = 5\<rparr>], 1)
   \<and> fst (handleManagedStreams ex_Caller ex_imported [1] ex_state) =
        Inr \<lparr>Channels = [Some \<lparr>Channel = ''x/a'', MinuteRate = 2\<rparr>,
                         Some \<lparr>Channel = ''x/b'', MinuteRate = 5\<rparr>]\<rparr>
   \<and> Unmarshal_NodeManagedChannelsRequest ex_imported [9] = Inr \<lparr>req_OrgID = 9\<rparr>
   \<and> GetManagedChannels ex_Caller 9 (world ex_state) = (Inl ''no such organization'', 1)
   \<and> fst (handleManagedStreams ex_Caller ex_imported [9] ex_state) =
        Inl (Foreign ''no such organization'')"
proof -
  have h1: "Unmarshal_NodeManagedChannelsRequest ex_imported [1] = Inr \<lparr>req_OrgID = 1\<rparr>"
    by (simp add: ex_defs)
  have h2: "GetManagedChannels ex_Caller 1 (world ex_state) =
        (Inr [Some \<lparr>Channel = ''x/a'', MinuteRate = 2\<rparr>, Some \<lparr>Channel = ''x/b'', MinuteRate = 5\<rparr>], 1)"
    by (simp add: ex_defs)
  have h3: "Unmarshal_NodeManagedChannelsRequest ex_imported [9] = Inr \<lparr>req_OrgID = 9\<rparr>"
    by (simp add: ex_defs)
  have h4: "GetManagedChannels ex_Caller 9 (world ex_state) = (Inl ''no such organization'', 1)"
    by (simp add: ex_defs)
  from handleManagedStreams_passes_list_through [OF h1 h2]
    handleManagedStreams_passes_list_through [OF h3 h4] h1 h2 h3 h4
  show ?thesis by simp
qed

subsection \<open>The targeted leader call\<close>

text \<open>
  Claim C6. The replies form a map that holds a reply of the addressed leader with status
  code 0 and a payload that decodes, and every reply of another node has status code 0.
  Then, in whatever order the replies are visited, the call skips the replies of the
  other nodes and returns the reply and the status of the leader's payload.
\<close>

theorem leader_reply_is_decoded_and_returned:
  assumes "Marshal_PluginSubscribeStreamRequest im
             \<lparr>OrgID = OrgId user, UserID = UserId user, sub_Channel = channel,
              LeaderNodeID = leaderNodeID, LeadershipID = leadershipID\<rparr> = Inr jsonData"
    and "Survey c pluginSubscribeStream jsonData leaderNodeID (world s) = (Inr resp, w')"
    and "distinct (map fst resp)"
    and "(leaderNodeID, r) \<in> set resp"
    and "Code r = 0"
    and "Unmarshal_PluginSubscribeStreamResponse im (Data r) = Inr res"
    and "\<forall>(n, r') \<in> set resp. n \<noteq> leaderNodeID \<longrightarrow> Code r' = 0"
  shows "fst (CallPluginSubscribeStream c im user channel leaderNodeID leadershipID s) =
           Inr (Reply res, Status res)"
  using loop_returns_leader_reply [OF assms(3-7)] CallPluginSubscribeStream_eq [OF assms(1,2)]
  by simp

theorem leader_reply_is_decoded_and_returned_witness:
  "Marshal_PluginSubscribeStreamRequest ex_imported
     \<lparr>OrgID = OrgId ex_user, UserID = UserId ex_user, sub_Channel = ''plugin/demo/tick'',
      LeaderNodeID = ''node-1'', LeadershipID = ''t1''\<rparr> = Inr [30]
   \<and> Survey ex_Caller pluginSubscribeStream [30] ''node-1'' (world ex_state) =
       (Inr [(''node-3'', \<lparr>Code = 0, Data = []\<rparr>), (''node-1'', \<lparr>Code = 0, Data = [20]\<rparr>)], 1)
   \<and> Unmarshal_PluginSubscribeStreamResponse ex_imported [20] = Inr \<lparr>Status = 2, Reply = 42\<rparr>
   \<and> fst (CallPluginSubscribeStream ex_Caller ex_imported ex_user ''plugin/demo/tick''
            ''node-1'' ''t1'' ex_state) = Inr (42, 2)"
proof -
  let ?resp = "[(''node-3'', \<lparr>Code = 0, Data = []\<rparr>), (''node-1'', \<lparr>Code = 0, Data = [20]\<rparr>)]"
  have h1: "Marshal_PluginSubscribeStreamRequest ex_imported
     \<lparr>OrgID = OrgId ex_user, UserID = UserId ex_user, sub_Channel = ''plugin/demo/tick'',
      LeaderNodeID = ''node-1'', LeadershipID = ''t1''\<rparr> = Inr [30]"
    by (simp add: ex_defs)
  have h2: "Survey ex_Caller pluginSubscribeStream [30] ''node-1'' (world ex_state) =
       (Inr ?resp, 1)"
    by (simp add: ex_defs)
  have h3: "distinct (map fst ?resp)" by simp
  have h4: "(''node-1'', \<lparr>Code = 0, Data = [20]\<rparr>) \<in> set ?resp" by simp
  have h5: "Code \<lparr>Code = 0, Data = [20]\<rparr> = 0" by simp
  have h6: "Unmarshal_PluginSubscribeStreamResponse ex_imported (Data \<lparr>Code = 0, Data = [20]\<rparr>) =
              Inr \<lparr>Status = 2, Reply = 42\<rparr>"
    by (simp add: ex_defs)
  have h7: "\<forall>(n, r') \<in> set ?resp. n \<noteq> ''node-1'' \<longrightarrow> Code r' = 0" by simp
  from leader_reply_is_decoded_and_returned [OF h1 h2 h3 h4 h5 h6 h7] h1 h2 h6 show ?thesis
    by simp
qed

text \<open>
  Claim C7. The call fails with "leader node not responded" exactly when the loop runs to
  its end without finding the leader: the map is empty, or all its replies have status
  code 0 and come from other nodes.
\<close>

theorem no_leader_reply_is_leader_node_not_responded:
  assumes "Marshal_PluginSubscribeStreamRequest im
             \<lparr>OrgID = OrgId user, UserID = UserId user, sub_Channel = channel,
              LeaderNodeID = leaderNodeID, LeadershipID = leadershipID\<rparr> = Inr jsonData"
    and "Survey c pluginSubscribeStream jsonData leaderNodeID (world s) = (Inr resp, w')"
  shows "fst (CallPluginSubscribeStream c im user channel leaderNodeID leadershipID s) =
           Inl (New ''leader node not responded'')
         \<longleftrightarrow> (\<forall>(n, r) \<in> set resp. Code r = 0 \<and> n \<noteq> leaderNodeID)"
  using loop_not_responded_iff [of im leaderNodeID resp]
    CallPluginSubscribeStream_eq [OF assms(1,2)]
  by simp

theorem no_leader_reply_is_leader_node_not_responded_witness:
  "Marshal_PluginSubscribeStreamRequest ex_imported
     \<lparr>OrgID = OrgId ex_user, UserID = UserId ex_user, sub_Channel = ''plugin/demo/tick'',
      LeaderNodeID = ''node-2'', LeadershipID = ''t1''\<rparr> = Inr [30]
   \<and> Survey ex_Caller pluginSubscribeStream [30] ''node-2'' (world ex_state) =
       (Inr [(''node-3'', \<lparr>Code = 0, Data = []\<rparr>)], 1)
   \<and> fst (CallPluginSubscribeStream ex_Caller ex_imported ex_user ''plugin/demo/tick''
            ''node-2'' ''t1'' ex_state) = Inl (New ''leader node not responded'')"
proof -
  have h1: "Marshal_PluginSubscribeStreamRequest ex_imported
     \<lparr>OrgID = OrgId ex_user, UserID = UserId ex_user, sub_Channel = ''plugin/demo/tick'',
      LeaderNodeID = ''node-2'', LeadershipID = ''t1''\<rparr> = Inr [30]"
    by (simp add: ex_defs)
  have h2: "Survey ex_Caller pluginSubscribeStream [30] ''node-2'' (world ex_state) =
       (Inr [(''node-3'', \<lparr>Code = 0, Data = []\<rparr>)], 1)"
    by (simp add: ex_defs)
  from no_leader_reply_is_leader_node_not_responded [OF h1 h2] h1 h2 show ?thesis
    by simp
qed

text \<open>
  Claim C5, as the claim states it, fails: the loop returns as soon as it meets the
  leader's reply, so a reply with a non-zero status code that the map iteration would
  visit later is not looked at. Here the leader \<open>node-5\<close> is visited first and the
  call succeeds although \<open>node-3\<close> has replied with status code 1.
\<close>

theorem nonzero_reply_after_leader_is_not_examined:
  "Survey ex_Caller pluginSubscribeStream [30] ''node-5'' (world ex_state) =
     (Inr [(''node-5'', \<lparr>Code = 0, Data = [20]\<rparr>), (''node-3'', \<lparr>Code = 1, Data = []\<rparr>)], 1)
   \<and> fst (CallPluginSubscribeStream ex_Caller ex_imported ex_user ''plugin/demo/tick''
            ''node-5'' ''t1'' ex_state) = Inr (42, 2)"
  by (simp add: CallPluginSubscribeStream_def logged_def ex_defs)

text \<open>
  Claim C5, amended. A reply with a non-zero status code that no reply of the addressed
  leader precedes in the order of iteration makes the call fail with an "unexpected
  survey code" error, whichever node sent it.
\<close>

theorem nonzero_reply_before_leader_fails_call:
  assumes "Marshal_PluginSubscribeStreamRequest im
             \<lparr>OrgID = OrgId user, UserID = UserId user, sub_Channel = channel,
              LeaderNodeID = leaderNodeID, LeadershipID = leadershipID\<rparr> = Inr jsonData"
    and "Survey c pluginSubscribeStream jsonData leaderNodeID (world s) =
           (Inr (pre @ (n, r) # post), w')"
    and "Code r \<noteq> 0"
    and "\<forall>(n', r') \<in> set pre. n' \<noteq> leaderNodeID"
  shows "\<exists>code. code \<noteq> 0 \<and>
           fst (CallPluginSubscribeStream c im user channel leaderNodeID leadershipID s) =
             Inl (Errorf_unexpected_survey_code code)"
  using loop_reaches_nonzero [OF assms(4,3)] CallPluginSubscribeStream_eq [OF assms(1,2)]
  by simp

theorem nonzero_reply_before_leader_fails_call_witness:
  "Marshal_PluginSubscribeStreamRequest ex_imported
     \<lparr>OrgID = OrgId ex_user, UserID = UserId ex_user, sub_Channel = ''plugin/demo/tick'',
      LeaderNodeID = ''node-4'', LeadershipID = ''t1''\<rparr> = Inr [30]
   \<and> Survey ex_Caller pluginSubscribeStream [30] ''node-4'' (world ex_state) =
       (Inr ([(''node-2'', \<lparr>Code = 0, Data = []\<rparr>)] @ (''node-3'', \<lparr>Code = 1, Data = []\<rparr>) #
             [(''node-4'', \<lparr>Code = 0, Data = [20]\<rparr>)]), 1)
   \<and> Code \<lparr>Code = 1, Data = []\<rparr> \<noteq> 0
   \<and> ''node-2'' \<noteq> ''node-4''
   \<and> (\<exists>code. code \<noteq> 0 \<and>
          fst (CallPluginSubscribeStream ex_Caller ex_imported ex_user ''plugin/demo/tick''
                 ''node-4'' ''t1'' ex_state) = Inl (Errorf_unexpected_survey_code code))"
proof -
  have h1: "Marshal_PluginSubscribeStreamRequest ex_imported
     \<lparr>OrgID = OrgId ex_user, UserID = UserId ex_user, sub_Channel = ''plugin/demo/tick'',
      LeaderNodeID = ''node-4'', LeadershipID = ''t1''\<rparr> = Inr [30]"
    by (simp add: ex_defs)
  have h2: "Survey ex_Caller pluginSubscribeStream [30] ''node-4'' (world ex_state) =
       (Inr ([(''node-2'', \<lparr>Code = 0, Data = []\<rparr>)] @ (''node-3'', \<lparr>Code = 1, Data = []\<rparr>) #
             [(''node-4'', \<lparr>Code = 0, Data = [20]\<rparr>)]), 1)"
    by (simp add: ex_defs)
  have h3: "Code \<lparr>Code = 1, Data = []\<rparr> \<noteq> 0" by simp
  have h4: "\<forall>(n', r') \<in> set [(''node-2'', \<lparr>Code = 0, Data = []\<rparr>)]. n' \<noteq> ''node-4''"
    by simp
  from nonzero_reply_before_leader_fails_call [OF h1 h2 h3 h4] h1 h2 h3 show ?thesis
    by simp
qed

subsection \<open>The broadcast aggregation call\<close>

text \<open>
  Claim C3. Every reply of the broadcast survey has status code 0 and decodes to a list of
  channels; \<open>answers\<close> are these lists in the order in which the replies are visited.
  Then the call returns \<open>merged_channels\<close> of all the channels: per channel name the
  first occurrence, with the rates of the later occurrences added to it unless the name
  begins with \<^verbatim>\<open>plugin/testdata/\<close>, the entries sorted by name, each name once. In
  particular the three answers of the specification, the third given by two nodes, merge
  to its list in whatever order the four replies are visited.
\<close>

theorem aggregation_merges_and_sorts:
  fixes im :: "('e, 's, 'p, 'r::plus, 'z) imported"
  assumes "Marshal_NodeManagedChannelsRequest im \<lparr>req_OrgID = orgID\<rparr> = Inr jsonData"
    and "Survey c managedStreamsCall jsonData [] (world s) = (Inr resp, w')"
    and "list_all2 (\<lambda>(n, r) answer. Code r = 0 \<and>
           Unmarshal_NodeManagedChannelsResponse im (Data r) = Inr \<lparr>Channels = map Some answer\<rparr>)
           resp answers"
  shows "fst (CallManagedStreams c im orgID s) = Inr (merged_channels (concat answers))
    \<and> sorted (map Channel (merged_channels (concat answers)))
    \<and> distinct (map Channel (merged_channels (concat answers)))
    \<and> set (map Channel (merged_channels (concat answers))) = Channel ` set (concat answers)
    \<and> (\<forall>nodes :: real ManagedChannel list list.
          mset nodes =
            {#[\<lparr>Channel = ''x/a'', MinuteRate = 1\<rparr>],
              [\<lparr>Channel = ''x/a'', MinuteRate = 2\<rparr>, \<lparr>Channel = ''x/b'', MinuteRate = 5\<rparr>],
              [\<lparr>Channel = ''plugin/testdata/foo'', MinuteRate = 100\<rparr>],
              [\<lparr>Channel = ''plugin/testdata/foo'', MinuteRate = 100\<rparr>]#} \<longrightarrow>
          merged_channels (concat nodes) =
            [\<lparr>Channel = ''plugin/testdata/foo'', MinuteRate = 100\<rparr>,
             \<lparr>Channel = ''x/a'', MinuteRate = 3\<rparr>, \<lparr>Channel = ''x/b'', MinuteRate = 5\<rparr>])"
proof -
  have "holds_merge_of ([] :: (string \<times> ('r, 'z) ManagedChannel_scheme) list) []"
    by (simp add: holds_merge_of_def occurrences_def)
  from loop_holds [OF assms(3) this] obtain channels
    where l: "CallManagedStreams_loop im [] resp = Inr channels"
      and h: "holds_merge_of channels (concat answers)"
    by auto
  from assms(1,2) l have "fst (CallManagedStreams c im orgID s) =
      Inr (sort_key Channel (map snd channels))"
    by (simp add: CallManagedStreams_def logged_eq)
  with holds_sorted [OF h]
  have 1: "fst (CallManagedStreams c im orgID s) = Inr (merged_channels (concat answers))"
    by simp
  have 2: "sorted (map Channel (merged_channels (concat answers)))"
    and 3: "distinct (map Channel (merged_channels (concat answers)))"
    and 4: "set (map Channel (merged_channels (concat answers))) = Channel ` set (concat answers)"
    by (simp_all add: Channel_merged_channels)
  have 5: "merged_channels (concat nodes) =
            [\<lparr>Channel = ''plugin/testdata/foo'', MinuteRate = 100\<rparr>,
             \<lparr>Channel = ''x/a'', MinuteRate = 3\<rparr>, \<lparr>Channel = ''x/b'', MinuteRate = 5\<rparr>]"
    if "mset nodes =
            {#[\<lparr>Channel = ''x/a'', MinuteRate = 1\<rparr>],
              [\<lparr>Channel = ''x/a'', MinuteRate = 2\<rparr>, \<lparr>Channel = ''x/b'', MinuteRate = 5\<rparr>],
              [\<lparr>Channel = ''plugin/testdata/foo'', MinuteRate = 100\<rparr>],
              [\<lparr>Channel = ''plugin/testdata/foo'', MinuteRate = 100\<rparr>]#}"
    for nodes :: "real ManagedChannel list list"
    by (rule example_merged_channels) (simp add: mset_concat_sum that)
  from 1 2 3 4 5 show ?thesis by blast
qed

theorem aggregation_merges_and_sorts_witness:
  "Marshal_NodeManagedChannelsRequest ex_imported \<lparr>req_OrgID = 1\<rparr> = Inr [1]
   \<and> Survey ex_Caller managedStreamsCall [1] [] (world ex_state) =
       (Inr [(''node-1'', \<lparr>Code = 0, Data = [10]\<rparr>), (''node-2'', \<lparr>Code = 0, Data = [11]\<rparr>),
             (''node-3'', \<lparr>Code = 0, Data = [12]\<rparr>), (''node-4'', \<lparr>Code = 0, Data = [12]\<rparr>)], 1)
   \<and> Unmarshal_NodeManagedChannelsResponse ex_imported [10] =
       Inr \<lparr>Channels = map Some [\<lparr>Channel = ''x/a'', MinuteRate = 1\<rparr>]\<rparr>
   \<and> Unmarshal_NodeManagedChannelsResponse ex_imported [11] =
       Inr \<lparr>Channels = map Some [\<lparr>Channel = ''x/a'', MinuteRate = 2\<rparr>,
                                  \<lparr>Channel = ''x/b'', MinuteRate = 5\<rparr>]\<rparr>
   \<and> Unmarshal_NodeManagedChannelsResponse ex_imported [12] =
       Inr \<lparr>Channels = map Some [\<lparr>Channel = ''plugin/testdata/foo'', MinuteRate = 100\<rparr>]\<rparr>
   \<and> fst (CallManagedStreams ex_Caller ex_imported 1 ex_state) =
       Inr [\<lparr>Channel = ''plugin/testdata/foo'', MinuteRate = 100\<rparr>,
            \<lparr>Channel = ''x/a'', MinuteRate = 3\<rparr>, \<lparr>Channel = ''x/b'', MinuteRate = 5\<rparr>]"
proof -
  let ?resp = "[(''node-1'', \<lparr>Code = 0, Data = [10]\<rparr>), (''node-2'', \<lparr>Code = 0, Data = [11]\<rparr>),
                (''node-3'', \<lparr>Code = 0, Data = [12]\<rparr>), (''node-4'', \<lparr>Code = 0, Data = [12]\<rparr>)]"
  let ?answers = "[[\<lparr>Channel = ''x/a'', MinuteRate = 1::real\<rparr>],
                   [\<lparr>Channel = ''x/a'', MinuteRate = 2\<rparr>, \<lparr>Channel = ''x/b'', MinuteRate = 5\<rparr>],
                   [\<lparr>Channel = ''plugin/testdata/foo'', MinuteRate = 100\<rparr>],
                   [\<lparr>Channel = ''plugin/testdata/foo'', MinuteRate = 100\<rparr>]]"
  have h1: "Marshal_NodeManagedChannelsRequest ex_imported \<lparr>req_OrgID = 1\<rparr> = Inr [1]"
    by (simp add: ex_imported_def)
  have h2: "Survey ex_Caller managedStreamsCall [1] [] (world ex_state) = (Inr ?resp, 1)"
    by (simp add: ex_defs)
  have a: "Unmarshal_NodeManagedChannelsResponse ex_imported [10] =
       Inr \<lparr>Channels = map Some [\<lparr>Channel = ''x/a'', MinuteRate = 1\<rparr>]\<rparr>"
    by (simp add: ex_imported_def ex_answer_A_def)
  have b: "Unmarshal_NodeManagedChannelsResponse ex_imported [11] =
       Inr \<lparr>Channels = map Some [\<lparr>Channel = ''x/a'', MinuteRate = 2\<rparr>,
                                  \<lparr>Channel = ''x/b'', MinuteRate = 5\<rparr>]\<rparr>"
    by (simp add: ex_imported_def ex_answer_B_def)
  have c: "Unmarshal_NodeManagedChannelsResponse ex_imported [12] =
       Inr \<lparr>Channels = map Some [\<lparr>Channel = ''plugin/testdata/foo'', MinuteRate = 100\<rparr>]\<rparr>"
    by (simp add: ex_imported_def ex_answer_C_def)
  have h3: "list_all2 (\<lambda>(n, r) answer. Code r = 0 \<and>
           Unmarshal_NodeManagedChannelsResponse ex_imported (Data r) =
             Inr \<lparr>Channels = map Some answer\<rparr>) ?resp ?answers"
    using a b c by simp
  have m: "mset ?answers =
            {#[\<lparr>Channel = ''x/a'', MinuteRate = 1\<rparr>],
              [\<lparr>Channel = ''x/a'', MinuteRate = 2\<rparr>, \<lparr>Channel = ''x/b'', MinuteRate = 5\<rparr>],
              [\<lparr>Channel = ''plugin/testdata/foo'', MinuteRate = 100\<rparr>],
              [\<lparr>Channel = ''plugin/testdata/foo'', MinuteRate = 100\<rparr>]#}"
    by simp
  from aggregation_merges_and_sorts [OF h1 h2 h3]
  have r: "fst (CallManagedStreams ex_Caller ex_imported 1 ex_state) =
             Inr (merged_channels (concat ?answers))"
    and e: "\<forall>nodes :: real ManagedChannel list list.
          mset nodes =
            {#[\<lparr>Channel = ''x/a'', MinuteRate = 1\<rparr>],
              [\<lparr>Channel = ''x/a'', MinuteRate = 2\<rparr>, \<lparr>Channel = ''x/b'', MinuteRate = 5\<rparr>],
              [\<lparr>Channel = ''plugin/testdata/foo'', MinuteRate = 100\<rparr>],
              [\<lparr>Channel = ''plugin/testdata/foo'', MinuteRate = 100\<rparr>]#} \<longrightarrow>
          merged_channels (concat nodes) =
            [\<lparr>Channel = ''plugin/testdata/foo'', MinuteRate = 100\<rparr>,
             \<lparr>Channel = ''x/a'', MinuteRate = 3\<rparr>, \<lparr>Channel = ''x/b'', MinuteRate = 5\<rparr>]"
    by blast+
  from e m have "merged_channels (concat ?answers) =
            [\<lparr>Channel = ''plugin/testdata/foo'', MinuteRate = 100\<rparr>,
             \<lparr>Channel = ''x/a'', MinuteRate = 3\<rparr>, \<lparr>Channel = ''x/b'', MinuteRate = 5\<rparr>]"
    by blast
  with r h1 h2 a b c show ?thesis by simp
qed

text \<open>
  Claim C4. If any reply of the broadcast survey has a non-zero status code, the call
  returns no list of channels: its result is a failure.
\<close>

theorem failing_node_fails_whole_aggregation:
  assumes "Marshal_NodeManagedChannelsRequest im \<lparr>req_OrgID = orgID\<rparr> = Inr jsonData"
    and "Survey c managedStreamsCall jsonData [] (world s) = (Inr resp, w')"
    and "(n, r) \<in> set resp"
    and "Code r \<noteq> 0"
  shows "\<exists>err. fst (CallManagedStreams c im orgID s) = Inl err"
proof -
  obtain err where "CallManagedStreams_loop im [] resp = Inl err"
    using CallManagedStreams_loop_nonzero [OF assms(3,4)] by blast
  with assms(1,2) show ?thesis
    by (simp add: CallManagedStreams_def logged_eq)
qed

theorem failing_node_fails_whole_aggregation_witness:
  "Marshal_NodeManagedChannelsRequest ex_imported \<lparr>req_OrgID = 2\<rparr> = Inr [2]
   \<and> Survey ex_Caller managedStreamsCall [2] [] (world ex_state) =
       (Inr [(''node-1'', \<lparr>Code = 0, Data = [10]\<rparr>), (''node-2'', \<lparr>Code = 1, Data = []\<rparr>)], 1)
   \<and> Code \<lparr>Code = 1, Data = []\<rparr> \<noteq> 0
   \<and> (\<exists>err. fst (CallManagedStreams ex_Caller ex_imported 2 ex_state) = Inl err)"
proof -
  have h1: "Marshal_NodeManagedChannelsRequest ex_imported \<lparr>req_OrgID = 2\<rparr> = Inr [2]"
    by (simp add: ex_defs)
  have h2: "Survey ex_Caller managedStreamsCall [2] [] (world ex_state) =
       (Inr [(''node-1'', \<lparr>Code = 0, Data = [10]\<rparr>), (''node-2'', \<lparr>Code = 1, Data = []\<rparr>)], 1)"
    by (simp add: ex_defs)
  have h3: "(''node-2'', \<lparr>Code = 1, Data = []\<rparr>) \<in>
              set [(''node-1'', \<lparr>Code = 0, Data = [10]\<rparr>), (''node-2'', \<lparr>Code = 1, Data = []\<rparr>)]"
    by simp
  have h4: "Code \<lparr>Code = 1, Data = []\<rparr> \<noteq> 0" by simp
  from failing_node_fails_whole_aggregation [OF h1 h2 h3 h4] h1 h2 h4 show ?thesis
    by blast
qed

end
